theory Spec2Isabelle
  imports Main "HOL-Library.Sublist"
begin

section \<open>Console weather application (weatherApi/weatherApp.py)\<close>

text \<open>
  The program is a Python console client of a weather web API. Its three parts are
  embedded here as HOL functions: \<open>WeatherClient.fetch_weather\<close>,
  \<open>WeatherDisplay.format_unix_time\<close> and \<open>WeatherDisplay.show_weather\<close>, and the
  prompt loop made of \<open>get_units\<close> and \<open>main\<close>.

  Python \<open>str\<close> values are HOL strings holding the UTF-8 bytes of the text, so the
  degree sign and the cross mark of the source are written as their bytes.
  Everything the program writes or requests is recorded, in order, as a list of events.
\<close>

subsection \<open>Values parsed from JSON, exceptions, events\<close>

text \<open>
  A Python \<open>float\<close> is kept as sign, mantissa and binary exponent, or one of the
  special values; the program never computes with it.
\<close>

datatype pyfloat = Finite bool nat int | Infinity bool | NaN

text \<open>
  What \<open>response.json()\<close> can return. \<open>JNull\<close> is Python's \<open>None\<close>; an object is a
  \<open>dict\<close>, kept as an association list that is read with \<open>map_of\<close>.
\<close>

datatype json =
    JNull
  | JBool bool
  | JInt int
  | JFloat pyfloat
  | JStr string
  | JArr "json list"
  | JObj "(string \<times> json) list"

type_synonym dict = "(string \<times> json) list"

text \<open>
  The exceptions that can reach the program. The first five are the classes of
  \<open>requests.exceptions\<close> that the handlers of \<open>fetch_weather\<close> name, with the
  message that \<open>str(err)\<close> gives: \<open>ConnectionError\<close> stands for that class and its
  subclasses other than \<open>ConnectTimeout\<close>, which is a subclass of both
  \<open>ConnectionError\<close> and \<open>Timeout\<close>; \<open>Timeout\<close> stands for \<open>Timeout\<close> and
  \<open>ReadTimeout\<close>; \<open>RequestException\<close> for every other subclass of the base class.
\<close>

datatype exn =
    HTTPError string
  | ConnectionError string
  | ConnectTimeout string
  | Timeout string
  | RequestException string
  | AttributeError
  | TypeError
  | ValueError
  | OverflowError
  | OSError
  | EOFError
  | OtherException string

datatype event =
    Print string
  | Input string
  | HttpGet string "(string \<times> string) list"

text \<open>
  The parts of the Python runtime and of the machine that the program relies on and
  that are not in the repository:
  \<^item> \<open>str_other\<close>: \<open>str(v)\<close> for a float, a list or a dict;
  \<^item> \<open>float_time_t\<close>: the whole seconds \<open>datetime.fromtimestamp\<close> reads from a
    float, or the exception it raises (for \<open>nan\<close> and \<open>inf\<close>);
  \<^item> \<open>utcoffset\<close>: the offset in seconds of the local time zone from UTC at a given
    instant, as the platform's \<open>localtime\<close> applies it.
\<close>

record runtime =
  str_other :: "json \<Rightarrow> string"
  float_time_t :: "pyfloat \<Rightarrow> exn + int"
  utcoffset :: "int \<Rightarrow> int"

subsection \<open>Built-in operations of Python used by the program\<close>

definition digit :: "nat \<Rightarrow> char" where
  "digit d =
     (if d = 0 then CHR ''0'' else if d = 1 then CHR ''1'' else if d = 2 then CHR ''2''
      else if d = 3 then CHR ''3'' else if d = 4 then CHR ''4'' else if d = 5 then CHR ''5''
      else if d = 6 then CHR ''6'' else if d = 7 then CHR ''7'' else if d = 8 then CHR ''8''
      else CHR ''9'')"

fun decimal :: "nat \<Rightarrow> string" where
  "decimal n = (if n < 10 then [digit n] else decimal (n div 10) @ [digit (n mod 10)])"

declare decimal.simps [simp del]

definition str_int :: "int \<Rightarrow> string" where
  "str_int i = (if i < 0 then CHR ''-'' # decimal (nat (- i)) else decimal (nat i))"

text \<open>\<open>str(v)\<close>, which an f-string applies to each value it interpolates.\<close>

definition py_str :: "runtime \<Rightarrow> json \<Rightarrow> string" where
  "py_str rt v =
     (case v of
        JNull \<Rightarrow> ''None''
      | JBool b \<Rightarrow> (if b then ''True'' else ''False'')
      | JInt i \<Rightarrow> str_int i
      | JStr s \<Rightarrow> s
      | _ \<Rightarrow> str_other rt v)"

text \<open>The truth value of \<open>v\<close> in \<open>if v:\<close>.\<close>

definition truthy :: "json \<Rightarrow> bool" where
  "truthy v =
     (case v of
        JNull \<Rightarrow> False
      | JBool b \<Rightarrow> b
      | JInt i \<Rightarrow> i \<noteq> 0
      | JFloat f \<Rightarrow> (case f of Finite s m e \<Rightarrow> m \<noteq> 0 | _ \<Rightarrow> True)
      | JStr s \<Rightarrow> s \<noteq> []
      | JArr xs \<Rightarrow> xs \<noteq> []
      | JObj kvs \<Rightarrow> kvs \<noteq> [])"

text \<open>\<open>d.get(key, default)\<close> on a dict.\<close>

definition dict_get :: "dict \<Rightarrow> string \<Rightarrow> json \<Rightarrow> json" where
  "dict_get d key dflt = (case map_of d key of Some v \<Rightarrow> v | None \<Rightarrow> dflt)"

text \<open>
  \<open>v.get(key, default)\<close> on any parsed value: only a dict has the method, every other
  value raises \<open>AttributeError\<close>.
\<close>

definition py_get :: "json \<Rightarrow> string \<Rightarrow> json \<Rightarrow> exn + json" where
  "py_get v key dflt = (case v of JObj d \<Rightarrow> Inr (dict_get d key dflt) | _ \<Rightarrow> Inl AttributeError)"

text \<open>
  \<open>str.strip()\<close> removes the white space at both ends of a text, and a Python text
  is a sequence of Unicode characters. So the bytes are first cut into characters: a
  byte that begins a sequence of several bytes (\<open>11xxxxxx\<close>) takes the continuation
  bytes (\<open>10xxxxxx\<close>) after it, any other byte stands alone. For the UTF-8 encoding of
  a text these are its characters.
\<close>

definition lead :: "char \<Rightarrow> bool" where
  "lead c = (digit7 c \<and> digit6 c)"

definition continuation :: "char \<Rightarrow> bool" where
  "continuation c = (digit7 c \<and> \<not> digit6 c)"

function chars :: "string \<Rightarrow> string list" where
  "chars [] = []"
| "chars (c # s) =
     (if lead c then (c # takeWhile continuation s) # chars (dropWhile continuation s)
      else [c] # chars s)"
  by pat_completeness auto
termination
  by (relation "measure length") (auto simp: length_dropWhile_le less_Suc_eq_le)

text \<open>
  The characters for which \<open>str.isspace\<close> holds, which are those that \<open>strip\<close>
  removes, in UTF-8: the tab, line feed, vertical tab, form feed, carriage return, the
  four separators \<open>U+001C\<close> to \<open>U+001F\<close> and the space; then \<open>U+0085\<close>, \<open>U+00A0\<close>,
  \<open>U+1680\<close>, \<open>U+2000\<close> to \<open>U+200A\<close>, \<open>U+2028\<close>, \<open>U+2029\<close>, \<open>U+202F\<close>,
  \<open>U+205F\<close> and \<open>U+3000\<close>.
\<close>

definition whitespace :: "string list" where
  "whitespace =
     [[CHR 0x09], [CHR 0x0A], [CHR 0x0B], [CHR 0x0C], [CHR 0x0D],
      [CHR 0x1C], [CHR 0x1D], [CHR 0x1E], [CHR 0x1F], [CHR 0x20],
      [CHR 0xC2, CHR 0x85], [CHR 0xC2, CHR 0xA0],
      [CHR 0xE1, CHR 0x9A, CHR 0x80],
      [CHR 0xE2, CHR 0x80, CHR 0x80], [CHR 0xE2, CHR 0x80, CHR 0x81],
      [CHR 0xE2, CHR 0x80, CHR 0x82], [CHR 0xE2, CHR 0x80, CHR 0x83],
      [CHR 0xE2, CHR 0x80, CHR 0x84], [CHR 0xE2, CHR 0x80, CHR 0x85],
      [CHR 0xE2, CHR 0x80, CHR 0x86], [CHR 0xE2, CHR 0x80, CHR 0x87],
      [CHR 0xE2, CHR 0x80, CHR 0x88], [CHR 0xE2, CHR 0x80, CHR 0x89],
      [CHR 0xE2, CHR 0x80, CHR 0x8A],
      [CHR 0xE2, CHR 0x80, CHR 0xA8], [CHR 0xE2, CHR 0x80, CHR 0xA9],
      [CHR 0xE2, CHR 0x80, CHR 0xAF],
      [CHR 0xE2, CHR 0x81, CHR 0x9F],
      [CHR 0xE3, CHR 0x80, CHR 0x80]]"

definition isspace :: "string \<Rightarrow> bool" where
  "isspace ch = (ch \<in> set whitespace)"

definition strip :: "string \<Rightarrow> string" where
  "strip s = concat (rev (dropWhile isspace (rev (dropWhile isspace (chars s)))))"

text \<open>
  \<open>str.lower()\<close>: the letters \<open>A\<close> to \<open>Z\<close> become \<open>a\<close> to \<open>z\<close>, and the bytes of the
  characters outside ASCII are left as they are. The program only compares the result
  with \<open>c\<close>, \<open>f\<close> and \<open>exit\<close>, and outside ASCII no character has one of these
  letters as its lower case, so the comparisons come out as in Python.
\<close>

definition lower_char :: "char \<Rightarrow> char" where
  "lower_char c =
     (case map_of (zip ''ABCDEFGHIJKLMNOPQRSTUVWXYZ'' ''abcdefghijklmnopqrstuvwxyz'') c of
        Some l \<Rightarrow> l
      | None \<Rightarrow> c)"

definition lower :: "string \<Rightarrow> string" where
  "lower s = map lower_char s"

subsection \<open>\<open>WeatherDisplay.format_unix_time\<close>\<close>

text \<open>
  \<open>datetime.fromtimestamp(timestamp)\<close>. The argument must be a number (a \<open>bool\<close> is
  an \<open>int\<close> in Python) that fits the 64-bit \<open>time_t\<close>, else \<open>TypeError\<close> or
  \<open>OverflowError\<close>.
\<close>

definition time_t_of :: "runtime \<Rightarrow> json \<Rightarrow> exn + int" where
  "time_t_of rt v =
     (case v of
        JInt i \<Rightarrow> (if - (2 ^ 63) \<le> i \<and> i < 2 ^ 63 then Inr i else Inl OverflowError)
      | JBool b \<Rightarrow> Inr (if b then 1 else 0)
      | JFloat f \<Rightarrow> float_time_t rt f
      | _ \<Rightarrow> Inl TypeError)"

text \<open>
  The offset of a time zone from UTC is less than a day in either direction; the
  parameter is read within these bounds.
\<close>

definition zone_offset :: "runtime \<Rightarrow> int \<Rightarrow> int" where
  "zone_offset rt t = max (- 86399) (min 86399 (utcoffset rt t))"

text \<open>
  The platform's \<open>localtime\<close> (POSIX, with a 64-bit \<open>time_t\<close>). Local wall-clock
  time is kept as its seconds counted
  from 1970-01-01 00:00:00. The call fails, and Python raises \<open>OSError\<close>, when the year
  less 1900 does not fit the 32-bit \<open>tm_year\<close>: the bounds are the first second of the
  year \<open>1900 - 2^31\<close> and the last second of the year \<open>1900 + 2^31 - 1\<close>.
\<close>

definition tm_min :: int where
  "tm_min = - 67768040609740800"

definition tm_max :: int where
  "tm_max = 67768036191676799"

definition localtime :: "runtime \<Rightarrow> int \<Rightarrow> exn + int" where
  "localtime rt t =
     (let loc = t + zone_offset rt t
      in if tm_min \<le> loc \<and> loc \<le> tm_max then Inr loc else Inl OSError)"

text \<open>
  The local time at an instant as the \<open>datetime\<close> module reads it: after \<open>localtime\<close>,
  the year must lie in 1 to 9999, else \<open>ValueError\<close>. The bounds are 0001-01-01 00:00:00
  and 9999-12-31 23:59:59.
\<close>

definition min_local :: int where
  "min_local = - 62135596800"

definition max_local :: int where
  "max_local = 253402300799"

definition local_seconds :: "runtime \<Rightarrow> int \<Rightarrow> exn + int" where
  "local_seconds rt u =
     (case localtime rt u of
        Inl e \<Rightarrow> Inl e
      | Inr loc \<Rightarrow> (if min_local \<le> loc \<and> loc \<le> max_local then Inr loc else Inl ValueError))"

text \<open>
  \<open>fromtimestamp\<close> reads the local time at the timestamp and then, to find out whether
  that wall-clock time occurs twice, the local time one day earlier; when the offset
  has gone down within that day, also the local time at the timestamp moved back by
  the difference. Each reading can raise. So the first day of the year 1 is rejected,
  as the reading one day earlier falls in the year 0.
\<close>

definition fromtimestamp :: "runtime \<Rightarrow> json \<Rightarrow> exn + int" where
  "fromtimestamp rt v =
     (case time_t_of rt v of
        Inl e \<Rightarrow> Inl e
      | Inr t \<Rightarrow>
          (case local_seconds rt t of
             Inl e \<Rightarrow> Inl e
           | Inr loc \<Rightarrow>
               (case local_seconds rt (t - 86400) of
                  Inl e \<Rightarrow> Inl e
                | Inr probe \<Rightarrow>
                    (let transition = loc - probe - 86400
                     in if transition < 0
                        then (case local_seconds rt (t + transition) of
                                Inl e \<Rightarrow> Inl e
                              | Inr again \<Rightarrow> Inr loc)
                        else Inr loc))))"

definition two_digits :: "nat \<Rightarrow> string" where
  "two_digits n = [digit (n div 10), digit (n mod 10)]"

text \<open>
  \<open>strftime("%I:%M %p")\<close>: the hour on the 12-hour clock and the minute, each with two
  digits, then \<open>AM\<close> or \<open>PM\<close> (the program does not change the locale, so the names
  are those of the C locale).
\<close>

definition hour24 :: "int \<Rightarrow> nat" where
  "hour24 loc = nat (loc mod 86400) div 3600"

definition minute :: "int \<Rightarrow> nat" where
  "minute loc = nat (loc mod 86400) mod 3600 div 60"

definition hour12 :: "int \<Rightarrow> nat" where
  "hour12 loc = (if hour24 loc mod 12 = 0 then 12 else hour24 loc mod 12)"

definition strftime_I_M_p :: "int \<Rightarrow> string" where
  "strftime_I_M_p loc =
     two_digits (hour12 loc) @ '':'' @ two_digits (minute loc) @ '' ''
       @ (if hour24 loc < 12 then ''AM'' else ''PM'')"

definition format_unix_time :: "runtime \<Rightarrow> json \<Rightarrow> exn + string" where
  "format_unix_time rt timestamp =
     (case fromtimestamp rt timestamp of
        Inl e \<Rightarrow> Inl e
      | Inr loc \<Rightarrow> Inr (strftime_I_M_p loc))"

text \<open>A runtime whose local time zone is UTC.\<close>

definition utc_runtime :: runtime where
  "utc_runtime =
     \<lparr>str_other = (\<lambda>v. ''?''), float_time_t = (\<lambda>f. Inl ValueError), utcoffset = (\<lambda>t. 0)\<rparr>"

subsection \<open>\<open>WeatherClient.fetch_weather\<close>\<close>

definition cross :: string where
  "cross = [CHR 0xE2, CHR 0x9D, CHR 0x8C]"

definition BASE_URL :: string where
  "BASE_URL = ''https://api.openweathermap.org/data/2.5/weather''"

text \<open>
  The body of the \<open>try\<close> block (\<open>requests.get\<close>, \<open>raise_for_status\<close> and
  \<open>response.json()\<close>) is the network: a function of the URL and the query
  parameters that gives the parsed body or the exception raised.
\<close>

type_synonym http = "string \<Rightarrow> (string \<times> string) list \<Rightarrow> exn + json"

text \<open>
  The handlers are tried in the order of the source, each matching the instances of its
  class. The value returned after a handled exception is \<open>None\<close>; an exception that
  no handler matches leaves the function.
\<close>

definition fetch_weather :: "string \<Rightarrow> http \<Rightarrow> string \<Rightarrow> string \<Rightarrow> event list \<times> (exn + json)" where
  "fetch_weather api_key get city units =
     (let params = [(''q'', city), (''appid'', api_key), (''units'', units)];
          request = HttpGet BASE_URL params
      in case get BASE_URL params of
           Inr body \<Rightarrow> ([request], Inr body)
         | Inl (HTTPError err) \<Rightarrow>
             ([request, Print (cross @ '' HTTP Error: '' @ err)], Inr JNull)
         | Inl (ConnectionError err) \<Rightarrow>
             ([request, Print (cross @ '' Network connection error. Check your internet.'')],
              Inr JNull)
         | Inl (ConnectTimeout err) \<Rightarrow>
             ([request, Print (cross @ '' Network connection error. Check your internet.'')],
              Inr JNull)
         | Inl (Timeout err) \<Rightarrow>
             ([request, Print (cross @ '' Request timed out.'')], Inr JNull)
         | Inl (RequestException err) \<Rightarrow>
             ([request, Print (cross @ '' General request error: '' @ err)], Inr JNull)
         | Inl other \<Rightarrow> ([request], Inl other))"

subsection \<open>\<open>WeatherDisplay.show_weather\<close>\<close>

text \<open>The local variables that \<open>show_weather\<close> reads from the response.\<close>

record fields =
  name :: json
  country :: json
  temperature :: json
  humidity :: json
  wind_speed :: json
  sunrise :: json
  sunset :: json

definition degree :: string where
  "degree = [CHR 0xC2, CHR 0xB0]"

definition or_raise :: "exn + 'a \<Rightarrow> ('a \<Rightarrow> exn + 'b) \<Rightarrow> exn + 'b" where
  "or_raise r k = (case r of Inl e \<Rightarrow> Inl e | Inr v \<Rightarrow> k v)"

text \<open>
  The assignments between the banner and the first line of data, in the order of the
  source; the first \<open>.get\<close> on a value that is not a dict raises.
\<close>

definition read_fields :: "dict \<Rightarrow> exn + fields" where
  "read_fields data =
     (let name = dict_get data ''name'' (JStr ''Unknown city'')
      in or_raise (py_get (dict_get data ''sys'' (JObj [])) ''country'' (JStr ''N/A'')) (\<lambda>country.
         let main = dict_get data ''main'' (JObj []);
             wind = dict_get data ''wind'' (JObj []);
             sys_info = dict_get data ''sys'' (JObj [])
         in or_raise (py_get main ''temp'' (JStr ''No data'')) (\<lambda>temperature.
            or_raise (py_get main ''humidity'' (JStr ''No data'')) (\<lambda>humidity.
            or_raise (py_get wind ''speed'' (JStr ''No data'')) (\<lambda>wind_speed.
            or_raise (py_get sys_info ''sunrise'' JNull) (\<lambda>sunrise.
            or_raise (py_get sys_info ''sunset'' JNull) (\<lambda>sunset.
              Inr \<lparr>name = name, country = country, temperature = temperature,
                   humidity = humidity, wind_speed = wind_speed,
                   sunrise = sunrise, sunset = sunset\<rparr>)))))))"

definition data_lines :: "runtime \<Rightarrow> fields \<Rightarrow> string \<Rightarrow> event list" where
  "data_lines rt f units =
     (let temperature_unit = (if units = ''metric'' then degree @ ''C'' else degree @ ''F'')
      in [Print (''Location: '' @ py_str rt (name f) @ '', '' @ py_str rt (country f)),
          Print (''Temperature: '' @ py_str rt (temperature f) @ temperature_unit),
          Print (''Humidity: '' @ py_str rt (humidity f) @ ''%''),
          Print (''Wind Speed: '' @ py_str rt (wind_speed f) @ '' m/s'')])"

text \<open>
  \<open>if v: print(f"<label>{self.format_unix_time(v)}")\<close>, for the sunrise and the
  sunset.
\<close>

definition sun_line :: "runtime \<Rightarrow> string \<Rightarrow> json \<Rightarrow> exn + event list" where
  "sun_line rt label v =
     (if truthy v
      then (case format_unix_time rt v of
              Inl e \<Rightarrow> Inl e
            | Inr s \<Rightarrow> Inr [Print (label @ s)])
      else Inr [])"

text \<open>The first and the last \<open>print\<close> of \<open>show_weather\<close>.\<close>

definition banner :: event where
  "banner = Print (CHR 0x0A # ''------ WEATHER INFORMATION ------'')"

definition footer :: event where
  "footer = Print (''--------------------------------'' @ [CHR 0x0A])"

text \<open>
  The banner is written first; an exception raised while the fields are read, or by
  \<open>format_unix_time\<close>, ends the function with what was written before it.
\<close>

definition show_weather :: "runtime \<Rightarrow> dict \<Rightarrow> string \<Rightarrow> event list \<times> exn option" where
  "show_weather rt data units =
     (case read_fields data of
        Inl e \<Rightarrow> ([banner], Some e)
      | Inr f \<Rightarrow>
          (let out = banner # data_lines rt f units
           in case sun_line rt ''Sunrise: '' (sunrise f) of
                Inl e \<Rightarrow> (out, Some e)
              | Inr dawn \<Rightarrow>
                  (case sun_line rt ''Sunset:  '' (sunset f) of
                     Inl e \<Rightarrow> (out @ dawn, Some e)
                   | Inr dusk \<Rightarrow> (out @ dawn @ dusk @ [footer], None))))"

subsection \<open>\<open>get_units\<close>\<close>

text \<open>
  Standard input is the list of the lines still to be read; \<open>input\<close> on the empty
  list raises \<open>EOFError\<close>. The function gives what it wrote, what it returned or raised,
  and the lines left.
\<close>

definition units_prompt :: string where
  "units_prompt =
     ''Choose units '' @ [CHR 0xE2, CHR 0x80, CHR 0x93] @ '' (C)elsius or (F)ahrenheit: ''"

fun get_units :: "string list \<Rightarrow> event list \<times> (exn + string) \<times> string list" where
  "get_units [] = ([Input units_prompt], Inl EOFError, [])"
| "get_units (line # rest) =
     (let choice = lower (strip line)
      in if choice = ''c'' then ([Input units_prompt], Inr ''metric'', rest)
         else if choice = ''f'' then ([Input units_prompt], Inr ''imperial'', rest)
         else (case get_units rest of
                 (out, r, rest') \<Rightarrow>
                   (Input units_prompt # Print ''Invalid option. Please enter C or F.'' # out,
                    r, rest')))"

subsection \<open>\<open>main\<close>\<close>

definition city_prompt :: string where
  "city_prompt = ''Enter a city name (or type 'exit' to quit): ''"

text \<open>What a step wrote, followed by the rest of the run.\<close>

definition after :: "event list \<Rightarrow> event list \<times> exn option \<Rightarrow> event list \<times> exn option" where
  "after out r = (out @ fst r, snd r)"

text \<open>
  The \<open>while True\<close> loop of \<open>main\<close>. The network may answer each request of a run
  differently, so it is indexed by the number of requests made before. The result is
  what the loop wrote and requested, and the exception that ended it, if one did.
  \<open>data.get\<close> on a body that is neither \<open>None\<close> nor a dict raises.
\<close>

function main_loop :: "runtime \<Rightarrow> (nat \<Rightarrow> http) \<Rightarrow> string \<Rightarrow> nat \<Rightarrow> string list \<Rightarrow> event list \<times> exn option" where
  "main_loop rt net api_key n [] = ([Input city_prompt], Some EOFError)"
| "main_loop rt net api_key n (line # rest) =
     (let city = strip line
      in if lower city = ''exit'' then ([Input city_prompt, Print ''Goodbye!''], None)
         else
           (case get_units rest of
              (asked, Inl e, rest') \<Rightarrow> (Input city_prompt # asked, Some e)
            | (asked, Inr units, rest') \<Rightarrow>
                (case fetch_weather api_key (net n) city units of
                   (fetched, Inl e) \<Rightarrow> (Input city_prompt # asked @ fetched, Some e)
                 | (fetched, Inr data) \<Rightarrow>
                     (let out = Input city_prompt # asked @ fetched
                      in case data of
                           JNull \<Rightarrow>
                             after (out @ [Print (cross @ '' No data returned. Try again.''
                                                    @ [CHR 0x0A])])
                               (main_loop rt net api_key (Suc n) rest')
                         | JObj d \<Rightarrow>
                             if py_str rt (dict_get d ''cod'' JNull) \<noteq> ''200''
                             then after (out @ [Print (cross @ '' Error: ''
                                            @ py_str rt (dict_get d ''message'' (JStr ''Unknown error''))
                                            @ ''.'' @ [CHR 0x0A])])
                                    (main_loop rt net api_key (Suc n) rest')
                             else (case show_weather rt d units of
                                     (shown, Some e) \<Rightarrow> (out @ shown, Some e)
                                   | (shown, None) \<Rightarrow>
                                       after (out @ shown)
                                         (main_loop rt net api_key (Suc n) rest'))
                         | _ \<Rightarrow> (out, Some AttributeError)))))"
  by pat_completeness auto
termination
proof -
  have shorter: "length (snd (snd (get_units ls))) \<le> length ls" for ls
    by (induction ls) (auto simp: Let_def split: prod.splits)
  have less: "length rest' < Suc (length rest)"
    if "(asked, r, rest') = get_units rest" for asked r rest' rest
    using shorter [of rest] that [symmetric] by simp
  show ?thesis
    by (relation "measure (\<lambda>(rt, net, api_key, n, stdin). length stdin)")
      (auto dest: less)
qed

declare main_loop.simps [simp del]

text \<open>
  \<open>main\<close>, given the value of \<open>API_KEY\<close> in the environment once \<open>load_dotenv\<close> has
  run (\<open>None\<close> when it is not set) and the lines of standard input.
\<close>

definition main :: "runtime \<Rightarrow> (nat \<Rightarrow> http) \<Rightarrow> string option \<Rightarrow> string list \<Rightarrow> event list \<times> exn option" where
  "main rt net API_KEY stdin =
     (case API_KEY of
        None \<Rightarrow>
          ([Print (cross @ '' ERROR: API key not found. Add it to your .env file.'')], None)
      | Some api_key \<Rightarrow>
          if api_key = []
          then ([Print (cross @ '' ERROR: API key not found. Add it to your .env file.'')], None)
          else after [Print (''==== Python Weather App ===='' @ [CHR 0x0A])]
                 (main_loop rt net api_key 0 stdin))"

subsection \<open>Notions used to state the properties\<close>

text \<open>The arguments of the \<open>print\<close> calls among the events, in order.\<close>

fun printed :: "event list \<Rightarrow> string list" where
  "printed [] = []"
| "printed (Print s # evs) = s # printed evs"
| "printed (ev # evs) = printed evs"

definition lines_starting :: "string \<Rightarrow> event list \<Rightarrow> string list" where
  "lines_starting p evs = filter (prefix p) (printed evs)"

text \<open>The requests sent to the network among the events.\<close>

fun requests :: "event list \<Rightarrow> event list" where
  "requests [] = []"
| "requests (HttpGet url params # evs) = HttpGet url params # requests evs"
| "requests (ev # evs) = requests evs"

text \<open>
  The field \<open>key\<close> of the object under \<open>outer\<close> in a response, when both are there;
  and whether the entry under \<open>outer\<close> is absent or an object.
\<close>

definition field_at :: "dict \<Rightarrow> string \<Rightarrow> string \<Rightarrow> json option" where
  "field_at data outer key =
     (case map_of data outer of Some (JObj d) \<Rightarrow> map_of d key | _ \<Rightarrow> None)"

definition nested_ok :: "dict \<Rightarrow> string \<Rightarrow> bool" where
  "nested_ok data outer =
     (case map_of data outer of None \<Rightarrow> True | Some (JObj d) \<Rightarrow> True | Some _ \<Rightarrow> False)"


text \<open>A network that gives the same answer to every request.\<close>

definition always :: "exn + json \<Rightarrow> http" where
  "always answer url params = answer"


definition sun_ok :: "runtime \<Rightarrow> dict \<Rightarrow> string \<Rightarrow> bool" where
  "sun_ok rt data key =
     (case field_at data ''sys'' key of
        None \<Rightarrow> True
      | Some v \<Rightarrow>
          (if truthy v then (case fromtimestamp rt v of Inr loc \<Rightarrow> True | Inl e \<Rightarrow> False)
           else True))"



text \<open>A response used to evaluate the functions.\<close>

definition sample :: dict where
  "sample =
     [(''name'', JStr ''Oslo''), (''cod'', JInt 200),
      (''main'', JObj [(''temp'', JInt 21)]),
      (''sys'', JObj [(''country'', JStr ''NO''), (''sunrise'', JInt 1700000000)])]"

text \<open>The query parameters that \<open>fetch_weather\<close> sends.\<close>

definition query :: "string \<Rightarrow> string \<Rightarrow> string \<Rightarrow> (string \<times> string) list" where
  "query api_key city units = [(''q'', city), (''appid'', api_key), (''units'', units)]"

text \<open>A network that answers every request of a run in the same way.\<close>

definition every_time :: "http \<Rightarrow> nat \<Rightarrow> http" where
  "every_time h n = h"

text \<open>
  A line that the unit prompt rejects, and what is written for a list of rejected
  lines: for each the prompt and the error message.
\<close>

definition rejected :: "string \<Rightarrow> bool" where
  "rejected l = (lower (strip l) \<noteq> ''c'' \<and> lower (strip l) \<noteq> ''f'')"

fun reprompts :: "string list \<Rightarrow> event list" where
  "reprompts [] = []"
| "reprompts (l # ls) =
     Input units_prompt # Print ''Invalid option. Please enter C or F.'' # reprompts ls"



section \<open>Properties\<close>

subsection \<open>Evaluation of the built-in operations\<close>

lemmas clock_defs =
  format_unix_time_def fromtimestamp_def local_seconds_def localtime_def zone_offset_def
  time_t_of_def tm_min_def tm_max_def min_local_def max_local_def
  strftime_I_M_p_def two_digits_def hour12_def hour24_def minute_def digit_def

lemmas text_defs =
  lower_def lower_char_def strip_def isspace_def whitespace_def lead_def continuation_def

subsection \<open>Timestamps that \<open>datetime.fromtimestamp\<close> accepts\<close>

lemma zone_offset_bounds: "- 86399 \<le> zone_offset rt t" "zone_offset rt t \<le> 86399"
  by (simp_all add: zone_offset_def)


lemma local_seconds_inside:
  assumes "- 62135510401 \<le> u" "u \<le> 253402214400"
  shows "local_seconds rt u = Inr (u + zone_offset rt u)"
  using assms zone_offset_bounds [of rt u]
  by (simp add: local_seconds_def localtime_def tm_min_def tm_max_def min_local_def
      max_local_def Let_def)


lemma fromtimestamp_inside:
  assumes "- 62135337600 \<le> t" "t \<le> 253402214400"
  shows "fromtimestamp rt (JInt t) = Inr (t + zone_offset rt t)"
proof -
  have word: "time_t_of rt (JInt t) = Inr t"
    using assms by (simp add: time_t_of_def)
  have now: "local_seconds rt t = Inr (t + zone_offset rt t)"
    using assms by (simp add: local_seconds_inside)
  have before: "local_seconds rt (t - 86400) = Inr (t - 86400 + zone_offset rt (t - 86400))"
    using assms by (simp add: local_seconds_inside)
  let ?d = "t + zone_offset rt t - (t - 86400 + zone_offset rt (t - 86400)) - 86400"
  have d: "- 172798 \<le> ?d"
    using zone_offset_bounds [of rt t] zone_offset_bounds [of rt "t - 86400"]
    by simp
  have again: "local_seconds rt (t + ?d) = Inr (t + ?d + zone_offset rt (t + ?d))" if "?d < 0"
    using assms d that by (intro local_seconds_inside) simp_all
  show ?thesis
    using again by (cases "?d < 0") (simp_all add: fromtimestamp_def word now before Let_def)
qed

subsection \<open>The epoch\<close>

text \<open>
  C5. When the local time zone has offset 0 at the epoch (as UTC has),
  \<open>format_unix_time\<close> of the timestamp 0 is \<open>12:00 AM\<close>.
\<close>

theorem format_unix_time_epoch:
  "utcoffset rt 0 = 0 \<Longrightarrow> format_unix_time rt (JInt 0) = Inr ''12:00 AM''"
proof -
  assume "utcoffset rt 0 = 0"
  then have "zone_offset rt 0 = 0"
    by (simp add: zone_offset_def)
  then have "fromtimestamp rt (JInt 0) = Inr 0"
    using fromtimestamp_inside [of 0 rt] by simp
  then show ?thesis
    by (simp add: format_unix_time_def strftime_I_M_p_def two_digits_def hour12_def
        hour24_def minute_def digit_def)
qed

theorem format_unix_time_epoch_witness:
  "utcoffset utc_runtime 0 = 0 \<and> format_unix_time utc_runtime (JInt 0) = Inr ''12:00 AM''"
  using format_unix_time_epoch [of utc_runtime] by (simp add: utc_runtime_def)

subsection \<open>Start without a credential\<close>

text \<open>
  C9. When \<open>API_KEY\<close> is not in the environment, \<open>main\<close> prints one error message
  and returns: no exception, no prompt, no request.
\<close>

theorem main_without_api_key:
  "main rt net None stdin =
     ([Print (cross @ '' ERROR: API key not found. Add it to your .env file.'')], None)"
  by (simp add: main_def)

subsection \<open>The block written by \<open>show_weather\<close>\<close>

lemmas show_defs =
  show_weather_def read_fields_def or_raise_def py_get_def dict_get_def data_lines_def
  sun_line_def truthy_def py_str_def str_int_def decimal.simps degree_def
  banner_def footer_def

lemma py_get_nested:
  "nested_ok data outer \<Longrightarrow>
   py_get (dict_get data outer (JObj [])) key dflt =
     Inr (case field_at data outer key of None \<Rightarrow> dflt | Some v \<Rightarrow> v)"
  by (auto simp: nested_ok_def field_at_def py_get_def dict_get_def
      split: option.splits json.splits)

lemma read_fields_well_formed:
  assumes "nested_ok data ''main''" "nested_ok data ''wind''" "nested_ok data ''sys''"
  shows "read_fields data =
     Inr \<lparr>name = dict_get data ''name'' (JStr ''Unknown city''),
          country = (case field_at data ''sys'' ''country'' of
                       None \<Rightarrow> JStr ''N/A'' | Some v \<Rightarrow> v),
          temperature = (case field_at data ''main'' ''temp'' of
                           None \<Rightarrow> JStr ''No data'' | Some v \<Rightarrow> v),
          humidity = (case field_at data ''main'' ''humidity'' of
                        None \<Rightarrow> JStr ''No data'' | Some v \<Rightarrow> v),
          wind_speed = (case field_at data ''wind'' ''speed'' of
                          None \<Rightarrow> JStr ''No data'' | Some v \<Rightarrow> v),
          sunrise = (case field_at data ''sys'' ''sunrise'' of None \<Rightarrow> JNull | Some v \<Rightarrow> v),
          sunset = (case field_at data ''sys'' ''sunset'' of None \<Rightarrow> JNull | Some v \<Rightarrow> v)\<rparr>"
  by (simp add: read_fields_def py_get_nested [OF assms(1)] py_get_nested [OF assms(2)]
      py_get_nested [OF assms(3)] or_raise_def Let_def)

lemma sun_line_Inr:
  "sun_line rt label v = Inr evs \<Longrightarrow> evs = [] \<or> (\<exists>s. evs = [Print (label @ s)])"
  by (auto simp: sun_line_def split: if_splits sum.splits)

lemma show_weather_shape:
  "show_weather rt data units =
     (case read_fields data of
        Inl e \<Rightarrow> ([banner], Some e)
      | Inr f \<Rightarrow>
         (case sun_line rt ''Sunrise: '' (sunrise f) of
            Inl e \<Rightarrow> (banner # data_lines rt f units, Some e)
          | Inr dawn \<Rightarrow>
             (case sun_line rt ''Sunset:  '' (sunset f) of
                Inl e \<Rightarrow> (banner # data_lines rt f units @ dawn, Some e)
              | Inr dusk \<Rightarrow>
                  (banner # data_lines rt f units @ dawn @ dusk @ [footer], None))))"
  by (simp add: show_weather_def Let_def split: sum.splits)

lemma lines_starting_append:
  "lines_starting p (xs @ ys) = lines_starting p xs @ lines_starting p ys"
  by (induction xs rule: printed.induct) (simp_all add: lines_starting_def)

lemma lines_starting_Cons:
  "lines_starting p (Print s # evs) =
     (if prefix p s then s # lines_starting p evs else lines_starting p evs)"
  by (simp add: lines_starting_def)

lemma lines_starting_Nil: "lines_starting p [] = []"
  by (simp add: lines_starting_def)

lemmas lines_starting_simps = lines_starting_append lines_starting_Cons lines_starting_Nil

lemma temperature_sun_line:
  "sun_line rt ''Sunrise: '' v = Inr evs \<Longrightarrow> lines_starting ''Temperature: '' evs = []"
  "sun_line rt ''Sunset:  '' v = Inr evs \<Longrightarrow> lines_starting ''Temperature: '' evs = []"
  by (auto dest!: sun_line_Inr simp: lines_starting_simps)

lemma temperature_lines:
  "lines_starting ''Temperature: '' (fst (show_weather rt data units)) =
     (case read_fields data of
        Inl e \<Rightarrow> []
      | Inr f \<Rightarrow> [''Temperature: '' @ py_str rt (temperature f)
                   @ (if units = ''metric'' then degree @ ''C'' else degree @ ''F'')])"
  by (simp add: show_weather_shape lines_starting_simps data_lines_def Let_def
      temperature_sun_line banner_def footer_def split: sum.splits)

lemma wind_sun_line:
  "sun_line rt ''Sunrise: '' v = Inr evs \<Longrightarrow> lines_starting ''Wind Speed: '' evs = []"
  "sun_line rt ''Sunset:  '' v = Inr evs \<Longrightarrow> lines_starting ''Wind Speed: '' evs = []"
  by (auto dest!: sun_line_Inr simp: lines_starting_simps)

lemma wind_lines:
  "lines_starting ''Wind Speed: '' (fst (show_weather rt data units)) =
     (case read_fields data of
        Inl e \<Rightarrow> []
      | Inr f \<Rightarrow> [''Wind Speed: '' @ py_str rt (wind_speed f) @ '' m/s''])"
  by (simp add: show_weather_shape lines_starting_simps data_lines_def Let_def
      wind_sun_line banner_def footer_def split: sum.splits)

text \<open>
  C6. Whatever the response holds, every temperature line that \<open>show_weather\<close> writes
  ends with the degree sign and \<open>C\<close> when the units are \<open>metric\<close>, and with the degree
  sign and \<open>F\<close> when they are \<open>imperial\<close>; and when the fields can be read, there is
  exactly one such line, made of the temperature and that suffix.
\<close>

theorem show_weather_temperature_suffix:
  "(\<forall>s \<in> set (lines_starting ''Temperature: '' (fst (show_weather rt data ''metric''))).
      suffix (degree @ ''C'') s)
   \<and> (\<forall>s \<in> set (lines_starting ''Temperature: '' (fst (show_weather rt data ''imperial''))).
      suffix (degree @ ''F'') s)
   \<and> (\<forall>f. read_fields data = Inr f \<longrightarrow>
        lines_starting ''Temperature: '' (fst (show_weather rt data ''metric'')) =
          [''Temperature: '' @ py_str rt (temperature f) @ degree @ ''C'']
      \<and> lines_starting ''Temperature: '' (fst (show_weather rt data ''imperial'')) =
          [''Temperature: '' @ py_str rt (temperature f) @ degree @ ''F''])"
proof (cases "read_fields data")
  case (Inl e)
  then show ?thesis by (simp add: temperature_lines)
next
  case (Inr f)
  have "suffix (degree @ u) (''Temperature: '' @ py_str rt (temperature f) @ degree @ u)" for u
    by (metis append.assoc suffixI)
  from this [of "''C''"] this [of "''F''"] show ?thesis
    by (simp add: temperature_lines Inr)
qed

theorem show_weather_temperature_suffix_witness:
  "lines_starting ''Temperature: '' (fst (show_weather utc_runtime sample ''metric'')) =
      [''Temperature: 21'' @ degree @ ''C'']
   \<and> suffix (degree @ ''C'') (''Temperature: 21'' @ degree @ ''C'')
   \<and> lines_starting ''Temperature: '' (fst (show_weather utc_runtime sample ''imperial'')) =
      [''Temperature: 21'' @ degree @ ''F'']
   \<and> suffix (degree @ ''F'') (''Temperature: 21'' @ degree @ ''F'')"
  using show_weather_temperature_suffix [of utc_runtime sample]
  by (simp add: show_defs sample_def clock_defs utc_runtime_def lines_starting_def)

text \<open>
  C10. Whatever the response holds and whatever the units are, every wind-speed line
  that \<open>show_weather\<close> writes ends with \<open> m/s\<close>; when the fields can be read there is
  exactly one such line, and when the wind speed is absent it reads
  \<open>Wind Speed: No data m/s\<close>.
\<close>

theorem show_weather_wind_suffix:
  "(\<forall>s \<in> set (lines_starting ''Wind Speed: '' (fst (show_weather rt data units))).
      suffix '' m/s'' s)
   \<and> (\<forall>f. read_fields data = Inr f \<longrightarrow>
        lines_starting ''Wind Speed: '' (fst (show_weather rt data units)) =
          [''Wind Speed: '' @ py_str rt (wind_speed f) @ '' m/s''])
   \<and> (nested_ok data ''main'' \<and> nested_ok data ''wind'' \<and> nested_ok data ''sys''
        \<and> field_at data ''wind'' ''speed'' = None \<longrightarrow>
        lines_starting ''Wind Speed: '' (fst (show_weather rt data units)) =
          [''Wind Speed: No data m/s''])"
proof (cases "read_fields data")
  case (Inl e)
  then show ?thesis by (auto simp: wind_lines read_fields_well_formed)
next
  case (Inr f)
  have "suffix '' m/s'' (''Wind Speed: '' @ py_str rt (wind_speed f) @ '' m/s'')"
    by (metis append.assoc suffixI)
  then show ?thesis
    using Inr by (auto simp: wind_lines read_fields_well_formed py_str_def)
qed

theorem show_weather_wind_suffix_witness:
  "lines_starting ''Wind Speed: '' (fst (show_weather utc_runtime sample ''imperial'')) =
      [''Wind Speed: No data m/s'']
   \<and> suffix '' m/s'' ''Wind Speed: No data m/s''
   \<and> nested_ok sample ''main'' \<and> nested_ok sample ''wind'' \<and> nested_ok sample ''sys''
   \<and> field_at sample ''wind'' ''speed'' = None"
  using show_weather_wind_suffix [of utc_runtime sample "''imperial''"]
  by (simp add: show_defs sample_def clock_defs utc_runtime_def lines_starting_def
      nested_ok_def field_at_def)

subsection \<open>The clock of \<open>format_unix_time\<close>\<close>








subsection \<open>Sunrise and sunset lines\<close>











subsection \<open>Missing fields\<close>



text \<open>
  A sunrise on the first day of the year 1 is outside the hypotheses: there
  \<open>datetime.fromtimestamp\<close> raises \<open>ValueError\<close> after the four lines of data.
\<close>

lemma show_weather_raises_in_year_0:
  "\<not> sun_ok utc_runtime [(''sys'', JObj [(''sunrise'', JInt (- 62135596800))])] ''sunrise''
   \<and> show_weather utc_runtime [(''sys'', JObj [(''sunrise'', JInt (- 62135596800))])] ''metric'' =
       ([banner,
         Print ''Location: Unknown city, N/A'',
         Print (''Temperature: No data'' @ degree @ ''C''),
         Print ''Humidity: No data%'',
         Print ''Wind Speed: No data m/s''], Some ValueError)"
  by (simp add: show_defs sun_ok_def field_at_def clock_defs utc_runtime_def)


subsection \<open>The result of a fetch\<close>

text \<open>
  C1, as the code has it. \<open>fetch_weather\<close> sends one request. On success it returns the
  parsed body and prints nothing. On each failure that a handler catches it prints the
  message of that handler and returns \<open>None\<close>: the HTTP error with its text, the
  connection failure (a connect timeout is caught here), the timeout, and any other
  error of the request with its text.
\<close>

theorem fetch_weather_outcomes:
  "requests (fst (fetch_weather api_key get city units)) =
      [HttpGet BASE_URL (query api_key city units)]
   \<and> (\<forall>body. get BASE_URL (query api_key city units) = Inr body \<longrightarrow>
        snd (fetch_weather api_key get city units) = Inr body
        \<and> printed (fst (fetch_weather api_key get city units)) = [])
   \<and> (\<forall>err. get BASE_URL (query api_key city units) = Inl (HTTPError err) \<longrightarrow>
        snd (fetch_weather api_key get city units) = Inr JNull
        \<and> printed (fst (fetch_weather api_key get city units)) =
            [cross @ '' HTTP Error: '' @ err])
   \<and> (\<forall>err. get BASE_URL (query api_key city units) = Inl (ConnectionError err)
          \<or> get BASE_URL (query api_key city units) = Inl (ConnectTimeout err) \<longrightarrow>
        snd (fetch_weather api_key get city units) = Inr JNull
        \<and> printed (fst (fetch_weather api_key get city units)) =
            [cross @ '' Network connection error. Check your internet.''])
   \<and> (\<forall>err. get BASE_URL (query api_key city units) = Inl (Timeout err) \<longrightarrow>
        snd (fetch_weather api_key get city units) = Inr JNull
        \<and> printed (fst (fetch_weather api_key get city units)) =
            [cross @ '' Request timed out.''])
   \<and> (\<forall>err. get BASE_URL (query api_key city units) = Inl (RequestException err) \<longrightarrow>
        snd (fetch_weather api_key get city units) = Inr JNull
        \<and> printed (fst (fetch_weather api_key get city units)) =
            [cross @ '' General request error: '' @ err])"
proof -
  have req: "requests (fst (fetch_weather api_key get city units)) =
      [HttpGet BASE_URL (query api_key city units)]"
    by (simp add: fetch_weather_def query_def Let_def split: sum.splits exn.splits)
  have ok: "snd (fetch_weather api_key get city units) = Inr body
        \<and> printed (fst (fetch_weather api_key get city units)) = []"
    if "get BASE_URL (query api_key city units) = Inr body" for body
    using that by (simp add: fetch_weather_def query_def Let_def)
  have failed: "snd (fetch_weather api_key get city units) = Inr JNull
        \<and> printed (fst (fetch_weather api_key get city units)) =
            (case e of
               HTTPError err \<Rightarrow> [cross @ '' HTTP Error: '' @ err]
             | ConnectionError err \<Rightarrow> [cross @ '' Network connection error. Check your internet.'']
             | ConnectTimeout err \<Rightarrow> [cross @ '' Network connection error. Check your internet.'']
             | Timeout err \<Rightarrow> [cross @ '' Request timed out.'']
             | RequestException err \<Rightarrow> [cross @ '' General request error: '' @ err]
             | _ \<Rightarrow> [])"
    if "get BASE_URL (query api_key city units) = Inl e"
      "e \<in> range HTTPError \<union> range ConnectionError \<union> range ConnectTimeout \<union> range Timeout
          \<union> range RequestException" for e
    using that by (auto simp: fetch_weather_def query_def Let_def)
  show ?thesis
    using req ok failed by (auto simp del: append.simps)
qed

theorem fetch_weather_outcomes_witness:
  "always (Inl (HTTPError ''404 Client Error'')) BASE_URL (query ''key'' ''Oslo'' ''metric'') =
      Inl (HTTPError ''404 Client Error'')
   \<and> snd (fetch_weather ''key'' (always (Inl (HTTPError ''404 Client Error''))) ''Oslo''
          ''metric'') = Inr JNull
   \<and> printed (fst (fetch_weather ''key'' (always (Inl (HTTPError ''404 Client Error'')))
          ''Oslo'' ''metric'')) = [cross @ '' HTTP Error: 404 Client Error'']"
  using fetch_weather_outcomes
    [of "''key''" "always (Inl (HTTPError ''404 Client Error''))" "''Oslo''" "''metric''"]
  by (simp add: always_def)

text \<open>
  The claim C1 as stated fails: the value returned to the caller is \<open>None\<close> for each of
  the four classes of failure, so it does not tell them apart.
\<close>

theorem fetch_weather_failures_alike:
  "snd (fetch_weather ''key'' (always (Inl (HTTPError ''404 Client Error''))) ''Oslo''
     ''metric'') = Inr JNull
   \<and> snd (fetch_weather ''key'' (always (Inl (ConnectionError ''unreachable''))) ''Oslo''
     ''metric'') = Inr JNull
   \<and> snd (fetch_weather ''key'' (always (Inl (Timeout ''timed out''))) ''Oslo''
     ''metric'') = Inr JNull
   \<and> snd (fetch_weather ''key'' (always (Inl (RequestException ''invalid URL''))) ''Oslo''
     ''metric'') = Inr JNull"
  by (simp add: fetch_weather_def always_def)

subsection \<open>The unit prompt\<close>

lemma get_units_rejected:
  "\<forall>l \<in> set bad. rejected l \<Longrightarrow>
   get_units (bad @ ls) =
     (case get_units ls of (out, r, rest) \<Rightarrow> (reprompts bad @ out, r, rest))"
  by (induction bad) (auto simp: rejected_def Let_def split: prod.splits)

lemma get_units_result:
  "fst (snd (get_units ls)) \<in> {Inl EOFError, Inr ''metric'', Inr ''imperial''}"
  by (induction ls) (auto simp: Let_def split: prod.splits)

text \<open>
  C7. After any number of rejected lines, a line that strips and lowers to \<open>c\<close> makes
  \<open>get_units\<close> return \<open>metric\<close>, and one that gives \<open>f\<close> makes it return
  \<open>imperial\<close>; each rejected line writes the error message and the prompt again and
  nothing else, and the lines after the accepted one are left unread. When the input
  ends first, \<open>input\<close> raises \<open>EOFError\<close>. So \<open>get_units\<close> returns nothing but one
  of the two unit values.
\<close>

theorem get_units_prompt:
  assumes "\<forall>l \<in> set bad. rejected l"
  shows
    "(lower (strip l) = ''c'' \<longrightarrow>
        get_units (bad @ l # rest) = (reprompts bad @ [Input units_prompt], Inr ''metric'', rest))
     \<and> (lower (strip l) = ''f'' \<longrightarrow>
        get_units (bad @ l # rest) = (reprompts bad @ [Input units_prompt], Inr ''imperial'', rest))
     \<and> get_units bad = (reprompts bad @ [Input units_prompt], Inl EOFError, [])
     \<and> fst (snd (get_units ls)) \<in> {Inl EOFError, Inr ''metric'', Inr ''imperial''}"
  using get_units_rejected [OF assms, of "l # rest"] get_units_rejected [OF assms, of "[]"]
    get_units_result [of ls]
  by (simp add: Let_def)

theorem get_units_prompt_witness:
  "rejected ''x'' \<and> lower (strip ''C'') = ''c'' \<and> lower (strip ''c'') = ''c''
   \<and> lower (strip '' c '') = ''c''
   \<and> lower (strip ([CHR 0xC2, CHR 0xA0] @ ''c'' @ [CHR 0xE2, CHR 0x80, CHR 0x83])) = ''c''
   \<and> get_units [[CHR 0xC2, CHR 0xA0] @ ''c'', ''f''] =
       ([Input units_prompt], Inr ''metric'', [''f''])
   \<and> get_units [''x'', '' c '', ''Oslo''] =
       ([Input units_prompt, Print ''Invalid option. Please enter C or F.'', Input units_prompt],
        Inr ''metric'', [''Oslo''])
   \<and> get_units [''x'', ''F'', ''Oslo''] =
       ([Input units_prompt, Print ''Invalid option. Please enter C or F.'', Input units_prompt],
        Inr ''imperial'', [''Oslo''])
   \<and> get_units [''x''] =
       ([Input units_prompt, Print ''Invalid option. Please enter C or F.'', Input units_prompt],
        Inl EOFError, [])"
proof -
  have bad: "\<forall>l \<in> set [''x'']. rejected l" and none: "\<forall>l \<in> set []. rejected l"
    by (simp_all add: rejected_def text_defs)
  have c: "lower (strip ''C'') = ''c''" "lower (strip ''c'') = ''c''" "lower (strip '' c '') = ''c''"
    and f: "lower (strip ''F'') = ''f''"
    by (simp_all add: text_defs)
  have wide: "lower (strip ([CHR 0xC2, CHR 0xA0] @ ''c'' @ [CHR 0xE2, CHR 0x80, CHR 0x83])) = ''c''"
    and nbsp: "lower (strip ([CHR 0xC2, CHR 0xA0] @ ''c'')) = ''c''"
    by (simp_all add: text_defs)
  have "get_units ([] @ ([CHR 0xC2, CHR 0xA0] @ ''c'') # [''f'']) =
      (reprompts [] @ [Input units_prompt], Inr ''metric'', [''f''])"
    using get_units_prompt [OF none, of "[CHR 0xC2, CHR 0xA0] @ ''c''" "[''f'']"] nbsp
    by blast
  moreover have "get_units ([''x''] @ '' c '' # [''Oslo'']) =
      (reprompts [''x''] @ [Input units_prompt], Inr ''metric'', [''Oslo''])"
    using get_units_prompt [OF bad, of "'' c ''" "[''Oslo'']"] c(3)
    by blast
  moreover have "get_units ([''x''] @ ''F'' # [''Oslo'']) =
      (reprompts [''x''] @ [Input units_prompt], Inr ''imperial'', [''Oslo''])"
    using get_units_prompt [OF bad, of "''F''" "[''Oslo'']"] f
    by blast
  moreover have "get_units [''x''] = (reprompts [''x''] @ [Input units_prompt], Inl EOFError, [])"
    using get_units_prompt [OF bad] by blast
  ultimately show ?thesis
    using bad c wide by simp
qed

subsection \<open>Leaving the loop\<close>

lemma lower_char_exit:
  "lower_char x = CHR ''e'' \<Longrightarrow> x = CHR ''e'' \<or> x = CHR ''E''"
  "lower_char x = CHR ''x'' \<Longrightarrow> x = CHR ''x'' \<or> x = CHR ''X''"
  "lower_char x = CHR ''i'' \<Longrightarrow> x = CHR ''i'' \<or> x = CHR ''I''"
  "lower_char x = CHR ''t'' \<Longrightarrow> x = CHR ''t'' \<or> x = CHR ''T''"
  by (simp_all add: lower_char_def split: if_splits)

lemma strip_exit:
  assumes "lower l = ''exit''"
  shows "strip l = l"
proof -
  from assms obtain a b c d where l: "l = [a, b, c, d]"
    and "lower_char a = CHR ''e''" "lower_char b = CHR ''x''"
    and "lower_char c = CHR ''i''" "lower_char d = CHR ''t''"
    by (auto simp: lower_def)
  then have "a = CHR ''e'' \<or> a = CHR ''E''" "b = CHR ''x'' \<or> b = CHR ''X''"
    "c = CHR ''i'' \<or> c = CHR ''I''" "d = CHR ''t'' \<or> d = CHR ''T''"
    by (simp_all add: lower_char_exit)
  then show ?thesis
    unfolding l by (elim disjE) (simp_all add: text_defs)
qed

lemma main_loop_stripped_exit:
  "lower (strip line) = ''exit'' \<Longrightarrow>
   main_loop rt net api_key n (line # rest) = ([Input city_prompt, Print ''Goodbye!''], None)"
  by (simp add: main_loop.simps)

text \<open>
  C8. At the city prompt, at any point of a run, a line that equals \<open>exit\<close> up to the
  case of its letters ends the loop: it writes \<open>Goodbye!\<close> and returns, with no
  request to the network.
\<close>

theorem main_loop_exit:
  assumes "lower line = ''exit''"
  shows "main_loop rt net api_key n (line # rest) = ([Input city_prompt, Print ''Goodbye!''], None)
     \<and> requests (fst (main_loop rt net api_key n (line # rest))) = []"
proof -
  from assms have "lower (strip line) = ''exit''"
    by (simp add: strip_exit)
  then show ?thesis
    by (simp add: main_loop_stripped_exit)
qed

theorem main_loop_exit_witness:
  "lower ''EXIT'' = ''exit''
   \<and> main_loop utc_runtime (every_time (always (Inr JNull))) ''key'' 0 [''EXIT'', ''Oslo''] =
       ([Input city_prompt, Print ''Goodbye!''], None)
   \<and> requests (fst (main_loop utc_runtime (every_time (always (Inr JNull))) ''key'' 0
        [''EXIT'', ''Oslo''])) = []"
proof -
  have "lower ''EXIT'' = ''exit''"
    by (simp add: text_defs)
  from this main_loop_exit [OF this] show ?thesis
    by simp
qed

subsection \<open>The status code of the response\<close>











end
